theory Spec2Isabelle
  imports Main
begin

section \<open>The HTTP sink plugin (internal/plugin/sink.go)\<close>

text \<open>
  A shallow embedding of the three RPC handlers of \<^verbatim>\<open>HTTPSink\<close> (\<^verbatim>\<open>CreateSession\<close>,
  \<^verbatim>\<open>Write\<close>, \<^verbatim>\<open>CloseSession\<close>) and of \<^verbatim>\<open>sendBatch\<close>.  Go byte slices and Go strings
  are both byte sequences, modelled as \<^typ>\<open>string\<close>.  A Go \<^verbatim>\<open>error\<close> is modelled by its
  message; a function returning \<^verbatim>\<open>(T, error)\<close> returns \<open>string + T\<close> with \<open>Inl\<close> the
  error.  The calls to the logger change neither a return value nor any state and are
  left out.
\<close>

type_synonym bytes = string

subsection \<open>Data\<close>

text \<open>
  \<^verbatim>\<open>type Config struct\<close> (sink.go, lines 20-26).  \<^verbatim>\<open>Headers\<close> is a Go map; it is kept as
  the list of its entries in the order in which the \<^verbatim>\<open>range\<close> loop of \<^verbatim>\<open>sendBatch\<close> visits
  them (an order Go does not fix); the keys of a Go map are pairwise distinct.
\<close>

record Config =
  Endpoint :: string
  Method :: string
  Headers :: "(string \<times> string) list"
  Timeout :: string
  BatchFormat :: string

text \<open>
  The records of a decoded batch (package \<^verbatim>\<open>batch\<close> of the SDK): only the payload is read.
  \<open>Payload\<close> holds the bytes of the Go slice.  A slice with no bytes is either nil or an
  empty slice; \<open>Payload_is_nil\<close> tells which, and is read for a payload with no bytes only.
\<close>

record Record =
  Payload :: bytes
  Payload_is_nil :: bool

record Batch =
  Records :: "Record list"

text \<open>\<^verbatim>\<open>http.Client\<close>: the one field the plugin sets is the timeout, in nanoseconds.\<close>

record http_Client =
  client_Timeout :: int

text \<open>
  An outbound \<^verbatim>\<open>http.Request\<close>: method, URL, body and header, the header a map from the
  canonical header name to its values.
\<close>

record Request =
  req_Method :: string
  req_URL :: string
  req_Body :: bytes
  req_Header :: "string \<rightharpoonup> string list"

text \<open>
  The body of a response as \<^verbatim>\<open>io.ReadAll\<close> sees it: the bytes that arrive, and the error
  that ends the read if there is one.  \<^verbatim>\<open>io.ReadAll\<close> "reads from r until an error or EOF
  and returns the data it read": the bytes read before a failure are returned with the
  error.
\<close>

record ResponseBody =
  body_data :: bytes
  body_err :: "string option"

record Response =
  StatusCode :: int
  Body :: ResponseBody

definition io_ReadAll :: "ResponseBody \<Rightarrow> bytes \<times> string option" where
  "io_ReadAll r = (body_data r, body_err r)"

text \<open>
  The requests of the three RPCs and the acknowledgment of the \<^verbatim>\<open>Write\<close> stream.  The
  response of \<^verbatim>\<open>CreateSession\<close> holds the session identifier only and that of
  \<^verbatim>\<open>CloseSession\<close> is empty; they are modelled by the identifier and by \<open>()\<close>.
\<close>

record SessionCreateRequest =
  TenantId :: string
  ConfigJson :: bytes

record WriteRequest =
  SessionId :: string
  PackedBatch :: bytes

record SessionCloseRequest =
  close_SessionId :: string

record AckResponse =
  Success :: bool
  Error :: string

text \<open>
  The values kept in a session's generic data slots (\<^verbatim>\<open>sess.SetData\<close>): the plugin stores
  a \<^verbatim>\<open>*http.Client\<close> under \<^verbatim>\<open>"http_client"\<close> and a \<^verbatim>\<open>Config\<close> under \<^verbatim>\<open>"config"\<close>.
\<close>

datatype SessionData = ClientData http_Client | ConfigData Config

record Session =
  ID :: string
  TenantID :: string
  ConfigJSON :: bytes
  Data :: "string \<rightharpoonup> SessionData"

type_synonym Manager = "string \<rightharpoonup> Session"

subsection \<open>The libraries the plugin calls\<close>

text \<open>
  The plugin calls into the Go standard library, the gRPC stream and the SDK.  What these
  return is not decided by the plugin, so each is a parameter:
  \<^item> \<open>json_Unmarshal\<close>: \<^verbatim>\<open>json.Unmarshal(req.ConfigJson, &cfg)\<close>, the error or the decoded
    config (an absent field decodes to the empty string or the empty map);
  \<^item> \<open>time_ParseDuration\<close>: \<^verbatim>\<open>time.ParseDuration\<close>, the error or the duration in nanoseconds;
  \<^item> \<open>new_request_err\<close>: the error, if any, of \<^verbatim>\<open>http.NewRequestWithContext\<close> for a method
    and a URL (an invalid method token or an unparsable URL; the body plays no part);
  \<^item> \<open>client_Do\<close>: \<^verbatim>\<open>client.Do(req)\<close> at a given moment (the number of messages the stream
    has handled before): a transport error (also a timeout or a cancelled context) or
    the response;
  \<^item> \<open>batch_UnpackBatch\<close>: \<^verbatim>\<open>batch.UnpackBatch\<close>, the error or the decoded batch;
  \<^item> \<open>stream_Send\<close>: the error, if any, of \<^verbatim>\<open>stream.Send\<close> for the acknowledgment of the
    message with the given number;
  \<^item> \<open>generate_id\<close>: the identifier the session manager gives to a new session;
  \<^item> \<open>err_not_found\<close>: the error message of the session manager for an unknown identifier.
\<close>

record libs =
  json_Unmarshal :: "bytes \<Rightarrow> string + Config"
  time_ParseDuration :: "string \<Rightarrow> string + int"
  new_request_err :: "string \<Rightarrow> string \<Rightarrow> string option"
  client_Do :: "http_Client \<Rightarrow> nat \<Rightarrow> Request \<Rightarrow> string + Response"
  batch_UnpackBatch :: "bytes \<Rightarrow> string + Batch"
  stream_Send :: "nat \<Rightarrow> AckResponse \<Rightarrow> string option"
  generate_id :: "Manager \<Rightarrow> string"
  err_not_found :: "string \<Rightarrow> string"

subsection \<open>Formatting the batch (sendBatch, lines 148-171)\<close>

definition newline :: char where
  "newline = CHR 0x0A"

text \<open>
  The \<^verbatim>\<open>ndjson\<close> branch: the loop writes each payload and then one newline byte into the
  buffer.
\<close>

definition ndjson_body :: "Record list \<Rightarrow> bytes" where
  "ndjson_body rs = foldl (\<lambda>buf r. (buf @ Payload r) @ [newline]) [] rs"

subsection \<open>json.Marshal of a json.RawMessage (encoding/json)\<close>

text \<open>
  \<^verbatim>\<open>json.Marshal\<close> calls \<^verbatim>\<open>MarshalJSON\<close> of each \<^verbatim>\<open>json.RawMessage\<close> (\<^verbatim>\<open>null\<close> for a nil
  message, the bytes themselves otherwise) and passes the result through the library's
  \<^verbatim>\<open>appendCompact\<close> with HTML escaping on: a scanner checks that the bytes are one JSON
  value, white space outside strings is dropped, and \<^verbatim>\<open><\<close>, \<^verbatim>\<open>>\<close>, \<^verbatim>\<open>&\<close>, U+2028 and
  U+2029 are written as \<^verbatim>\<open>\u\<close> escapes.  The scanner is the state machine of the
  library's \<^verbatim>\<open>scanner.go\<close>; the function held in \<^verbatim>\<open>s.step\<close> is a tag here, and the top
  of the stack \<^verbatim>\<open>s.parseState\<close> is the head of the list.
\<close>

datatype opcode =
  scanContinue | scanBeginLiteral | scanBeginObject | scanObjectKey | scanObjectValue
| scanEndObject | scanBeginArray | scanArrayValue | scanEndArray | scanSkipSpace
| scanEnd | scanError

datatype parse_state = parseObjectKey | parseObjectValue | parseArrayValue

datatype step_fn =
  BeginValueOrEmpty | BeginValue | BeginStringOrEmpty | BeginString | EndValue | EndTop
| InString | InStringEsc | InStringEscU | InStringEscU1 | InStringEscU12 | InStringEscU123
| Neg | Digit1 | Digit0 | Dot | Dot0 | Exp | ExpSign | Exp0
| LitT | LitTr | LitTru | LitF | LitFa | LitFal | LitFals | LitN | LitNu | LitNul
| StateError

record scanner =
  scan_step :: step_fn
  scan_parseState :: "parse_state list"
  scan_err :: "string option"
  scan_endTop :: bool

definition maxNestingDepth :: nat where
  "maxNestingDepth = 10000"

definition byte_in :: "char \<Rightarrow> nat \<Rightarrow> nat \<Rightarrow> bool" where
  "byte_in c lo hi = (lo \<le> (of_char c :: nat) \<and> (of_char c :: nat) \<le> hi)"

definition lowerhex :: "nat \<Rightarrow> char" where
  "lowerhex d = ''0123456789abcdef'' ! (d mod 16)"

text \<open>
  \<^verbatim>\<open>quoteChar\<close>: the byte between single quotes, written as \<^verbatim>\<open>strconv.Quote\<close> writes the
  character with that code.
\<close>

definition quoted_byte :: "char \<Rightarrow> string" where
  "quoted_byte c =
     (let n = (of_char c :: nat) in
      if c = CHR 0x5C then [CHR 0x5C, CHR 0x5C]
      else if 32 \<le> n \<and> n \<le> 126 then [c]
      else if 161 \<le> n \<and> n \<noteq> 173 then [char_of (192 + n div 64), char_of (128 + n mod 64)]
      else if n = 7 then [CHR 0x5C, CHR ''a'']
      else if n = 8 then [CHR 0x5C, CHR ''b'']
      else if n = 12 then [CHR 0x5C, CHR ''f'']
      else if n = 10 then [CHR 0x5C, CHR ''n'']
      else if n = 13 then [CHR 0x5C, CHR ''r'']
      else if n = 9 then [CHR 0x5C, CHR ''t'']
      else if n = 11 then [CHR 0x5C, CHR ''v'']
      else if n < 32 \<or> n = 127 then [CHR 0x5C, CHR ''x'', lowerhex (n div 16), lowerhex n]
      else [CHR 0x5C, CHR ''u'', CHR ''0'', CHR ''0'', lowerhex (n div 16), lowerhex n])"

definition quoteChar :: "char \<Rightarrow> string" where
  "quoteChar c =
     (if c = CHR 0x27 then [CHR 0x27, CHR 0x5C, CHR 0x27, CHR 0x27]
      else if c = CHR 0x22 then [CHR 0x27, CHR 0x22, CHR 0x27]
      else [CHR 0x27] @ quoted_byte c @ [CHR 0x27])"

definition scanner_error :: "scanner \<Rightarrow> char \<Rightarrow> string \<Rightarrow> opcode \<times> scanner" where
  "scanner_error s c context =
     (scanError, s\<lparr>scan_step := StateError,
                   scan_err := Some (''invalid character '' @ quoteChar c @ '' '' @ context)\<rparr>)"

definition expecting :: "string \<Rightarrow> char \<Rightarrow> string" where
  "expecting lit c = ''in literal '' @ lit @ '' (expecting '' @ [CHR 0x27, c, CHR 0x27] @ '')''"

definition pushParseState :: "scanner \<Rightarrow> char \<Rightarrow> parse_state \<Rightarrow> opcode \<Rightarrow> opcode \<times> scanner" where
  "pushParseState s c newParseState successState =
     (let s1 = s\<lparr>scan_parseState := newParseState # scan_parseState s\<rparr> in
      if length (scan_parseState s1) \<le> maxNestingDepth then (successState, s1)
      else scanner_error s1 c ''exceeded max depth'')"

definition popParseState :: "scanner \<Rightarrow> scanner" where
  "popParseState s =
     (let ps = tl (scan_parseState s) in
      if ps = [] then s\<lparr>scan_parseState := ps, scan_step := EndTop, scan_endTop := True\<rparr>
      else s\<lparr>scan_parseState := ps, scan_step := EndValue\<rparr>)"

definition isSpace :: "char \<Rightarrow> bool" where
  "isSpace c = (c = CHR '' '' \<or> c = CHR 0x09 \<or> c = CHR 0x0D \<or> c = CHR 0x0A)"

definition stateEndTop :: "scanner \<Rightarrow> char \<Rightarrow> opcode \<times> scanner" where
  "stateEndTop s c =
     (if \<not> isSpace c then (scanEnd, snd (scanner_error s c ''after top-level value''))
      else (scanEnd, s))"

definition stateEndValue :: "scanner \<Rightarrow> char \<Rightarrow> opcode \<times> scanner" where
  "stateEndValue s c =
     (case scan_parseState s of
        [] \<Rightarrow> stateEndTop (s\<lparr>scan_step := EndTop, scan_endTop := True\<rparr>) c
      | ps # below \<Rightarrow>
          if isSpace c then (scanSkipSpace, s\<lparr>scan_step := EndValue\<rparr>)
          else (case ps of
             parseObjectKey \<Rightarrow>
               if c = CHR '':''
               then (scanObjectKey, s\<lparr>scan_parseState := parseObjectValue # below, scan_step := BeginValue\<rparr>)
               else scanner_error s c ''after object key''
           | parseObjectValue \<Rightarrow>
               if c = CHR '',''
               then (scanObjectValue, s\<lparr>scan_parseState := parseObjectKey # below, scan_step := BeginString\<rparr>)
               else if c = CHR ''}'' then (scanEndObject, popParseState s)
               else scanner_error s c ''after object key:value pair''
           | parseArrayValue \<Rightarrow>
               if c = CHR '','' then (scanArrayValue, s\<lparr>scan_step := BeginValue\<rparr>)
               else if c = CHR '']'' then (scanEndArray, popParseState s)
               else scanner_error s c ''after array element''))"

definition stateBeginValue :: "scanner \<Rightarrow> char \<Rightarrow> opcode \<times> scanner" where
  "stateBeginValue s c =
     (if isSpace c then (scanSkipSpace, s)
      else if c = CHR ''{'' then pushParseState (s\<lparr>scan_step := BeginStringOrEmpty\<rparr>) c parseObjectKey scanBeginObject
      else if c = CHR ''['' then pushParseState (s\<lparr>scan_step := BeginValueOrEmpty\<rparr>) c parseArrayValue scanBeginArray
      else if c = CHR 0x22 then (scanBeginLiteral, s\<lparr>scan_step := InString\<rparr>)
      else if c = CHR ''-'' then (scanBeginLiteral, s\<lparr>scan_step := Neg\<rparr>)
      else if c = CHR ''0'' then (scanBeginLiteral, s\<lparr>scan_step := Digit0\<rparr>)
      else if c = CHR ''t'' then (scanBeginLiteral, s\<lparr>scan_step := LitT\<rparr>)
      else if c = CHR ''f'' then (scanBeginLiteral, s\<lparr>scan_step := LitF\<rparr>)
      else if c = CHR ''n'' then (scanBeginLiteral, s\<lparr>scan_step := LitN\<rparr>)
      else if byte_in c 49 57 then (scanBeginLiteral, s\<lparr>scan_step := Digit1\<rparr>)
      else scanner_error s c ''looking for beginning of value'')"

definition stateBeginValueOrEmpty :: "scanner \<Rightarrow> char \<Rightarrow> opcode \<times> scanner" where
  "stateBeginValueOrEmpty s c =
     (if isSpace c then (scanSkipSpace, s)
      else if c = CHR '']'' then stateEndValue s c
      else stateBeginValue s c)"

definition stateBeginString :: "scanner \<Rightarrow> char \<Rightarrow> opcode \<times> scanner" where
  "stateBeginString s c =
     (if isSpace c then (scanSkipSpace, s)
      else if c = CHR 0x22 then (scanBeginLiteral, s\<lparr>scan_step := InString\<rparr>)
      else scanner_error s c ''looking for beginning of object key string'')"

text \<open>In this state the stack is not empty: the state is entered by pushing \<open>parseObjectKey\<close>.\<close>

definition stateBeginStringOrEmpty :: "scanner \<Rightarrow> char \<Rightarrow> opcode \<times> scanner" where
  "stateBeginStringOrEmpty s c =
     (if isSpace c then (scanSkipSpace, s)
      else if c = CHR ''}''
      then stateEndValue (s\<lparr>scan_parseState := parseObjectValue # tl (scan_parseState s)\<rparr>) c
      else stateBeginString s c)"

definition stateInString :: "scanner \<Rightarrow> char \<Rightarrow> opcode \<times> scanner" where
  "stateInString s c =
     (if c = CHR 0x22 then (scanContinue, s\<lparr>scan_step := EndValue\<rparr>)
      else if c = CHR 0x5C then (scanContinue, s\<lparr>scan_step := InStringEsc\<rparr>)
      else if (of_char c :: nat) < 32 then scanner_error s c ''in string literal''
      else (scanContinue, s))"

definition stateInStringEsc :: "scanner \<Rightarrow> char \<Rightarrow> opcode \<times> scanner" where
  "stateInStringEsc s c =
     (if c \<in> set [CHR ''b'', CHR ''f'', CHR ''n'', CHR ''r'', CHR ''t'', CHR 0x5C, CHR ''/'', CHR 0x22]
      then (scanContinue, s\<lparr>scan_step := InString\<rparr>)
      else if c = CHR ''u'' then (scanContinue, s\<lparr>scan_step := InStringEscU\<rparr>)
      else scanner_error s c ''in string escape code'')"

definition is_hex :: "char \<Rightarrow> bool" where
  "is_hex c = (byte_in c 48 57 \<or> byte_in c 97 102 \<or> byte_in c 65 70)"

definition stateInStringEscU :: "step_fn \<Rightarrow> scanner \<Rightarrow> char \<Rightarrow> opcode \<times> scanner" where
  "stateInStringEscU next s c =
     (if is_hex c then (scanContinue, s\<lparr>scan_step := next\<rparr>)
      else scanner_error s c ([CHR ''i'', CHR ''n'', CHR '' '', CHR 0x5C] @ ''u hexadecimal character escape''))"

definition state0 :: "scanner \<Rightarrow> char \<Rightarrow> opcode \<times> scanner" where
  "state0 s c =
     (if c = CHR ''.'' then (scanContinue, s\<lparr>scan_step := Dot\<rparr>)
      else if c = CHR ''e'' \<or> c = CHR ''E'' then (scanContinue, s\<lparr>scan_step := Exp\<rparr>)
      else stateEndValue s c)"

definition state1 :: "scanner \<Rightarrow> char \<Rightarrow> opcode \<times> scanner" where
  "state1 s c =
     (if byte_in c 48 57 then (scanContinue, s\<lparr>scan_step := Digit1\<rparr>)
      else state0 s c)"

definition stateNeg :: "scanner \<Rightarrow> char \<Rightarrow> opcode \<times> scanner" where
  "stateNeg s c =
     (if c = CHR ''0'' then (scanContinue, s\<lparr>scan_step := Digit0\<rparr>)
      else if byte_in c 49 57 then (scanContinue, s\<lparr>scan_step := Digit1\<rparr>)
      else scanner_error s c ''in numeric literal'')"

definition stateDot :: "scanner \<Rightarrow> char \<Rightarrow> opcode \<times> scanner" where
  "stateDot s c =
     (if byte_in c 48 57 then (scanContinue, s\<lparr>scan_step := Dot0\<rparr>)
      else scanner_error s c ''after decimal point in numeric literal'')"

definition stateDot0 :: "scanner \<Rightarrow> char \<Rightarrow> opcode \<times> scanner" where
  "stateDot0 s c =
     (if byte_in c 48 57 then (scanContinue, s)
      else if c = CHR ''e'' \<or> c = CHR ''E'' then (scanContinue, s\<lparr>scan_step := Exp\<rparr>)
      else stateEndValue s c)"

definition stateESign :: "scanner \<Rightarrow> char \<Rightarrow> opcode \<times> scanner" where
  "stateESign s c =
     (if byte_in c 48 57 then (scanContinue, s\<lparr>scan_step := Exp0\<rparr>)
      else scanner_error s c ''in exponent of numeric literal'')"

definition stateE :: "scanner \<Rightarrow> char \<Rightarrow> opcode \<times> scanner" where
  "stateE s c =
     (if c = CHR ''+'' \<or> c = CHR ''-'' then (scanContinue, s\<lparr>scan_step := ExpSign\<rparr>)
      else stateESign s c)"

definition stateE0 :: "scanner \<Rightarrow> char \<Rightarrow> opcode \<times> scanner" where
  "stateE0 s c =
     (if byte_in c 48 57 then (scanContinue, s)
      else stateEndValue s c)"

text \<open>The states inside \<^verbatim>\<open>true\<close>, \<^verbatim>\<open>false\<close> and \<^verbatim>\<open>null\<close>: one expected byte each.\<close>

definition stateLiteral :: "string \<Rightarrow> char \<Rightarrow> step_fn \<Rightarrow> scanner \<Rightarrow> char \<Rightarrow> opcode \<times> scanner" where
  "stateLiteral lit want next s c =
     (if c = want then (scanContinue, s\<lparr>scan_step := next\<rparr>)
      else scanner_error s c (expecting lit want))"

definition stateError :: "scanner \<Rightarrow> char \<Rightarrow> opcode \<times> scanner" where
  "stateError s c = (scanError, s)"

text \<open>\<^verbatim>\<open>s.step(s, c)\<close>: the call of the function that the scanner holds.\<close>

definition scanner_step :: "scanner \<Rightarrow> char \<Rightarrow> opcode \<times> scanner" where
  "scanner_step s c =
     (case scan_step s of
        BeginValueOrEmpty \<Rightarrow> stateBeginValueOrEmpty s c
      | BeginValue \<Rightarrow> stateBeginValue s c
      | BeginStringOrEmpty \<Rightarrow> stateBeginStringOrEmpty s c
      | BeginString \<Rightarrow> stateBeginString s c
      | EndValue \<Rightarrow> stateEndValue s c
      | EndTop \<Rightarrow> stateEndTop s c
      | InString \<Rightarrow> stateInString s c
      | InStringEsc \<Rightarrow> stateInStringEsc s c
      | InStringEscU \<Rightarrow> stateInStringEscU InStringEscU1 s c
      | InStringEscU1 \<Rightarrow> stateInStringEscU InStringEscU12 s c
      | InStringEscU12 \<Rightarrow> stateInStringEscU InStringEscU123 s c
      | InStringEscU123 \<Rightarrow> stateInStringEscU InString s c
      | Neg \<Rightarrow> stateNeg s c
      | Digit1 \<Rightarrow> state1 s c
      | Digit0 \<Rightarrow> state0 s c
      | Dot \<Rightarrow> stateDot s c
      | Dot0 \<Rightarrow> stateDot0 s c
      | Exp \<Rightarrow> stateE s c
      | ExpSign \<Rightarrow> stateESign s c
      | Exp0 \<Rightarrow> stateE0 s c
      | LitT \<Rightarrow> stateLiteral ''true'' (CHR ''r'') LitTr s c
      | LitTr \<Rightarrow> stateLiteral ''true'' (CHR ''u'') LitTru s c
      | LitTru \<Rightarrow> stateLiteral ''true'' (CHR ''e'') EndValue s c
      | LitF \<Rightarrow> stateLiteral ''false'' (CHR ''a'') LitFa s c
      | LitFa \<Rightarrow> stateLiteral ''false'' (CHR ''l'') LitFal s c
      | LitFal \<Rightarrow> stateLiteral ''false'' (CHR ''s'') LitFals s c
      | LitFals \<Rightarrow> stateLiteral ''false'' (CHR ''e'') EndValue s c
      | LitN \<Rightarrow> stateLiteral ''null'' (CHR ''u'') LitNu s c
      | LitNu \<Rightarrow> stateLiteral ''null'' (CHR ''l'') LitNul s c
      | LitNul \<Rightarrow> stateLiteral ''null'' (CHR ''l'') EndValue s c
      | StateError \<Rightarrow> stateError s c)"

definition newScanner :: scanner where
  "newScanner = \<lparr>scan_step = BeginValue, scan_parseState = [], scan_err = None, scan_endTop = False\<rparr>"

text \<open>\<^verbatim>\<open>s.eof()\<close>: the error with which the input ends, if it does not end a value.\<close>

definition scanner_eof :: "scanner \<Rightarrow> string option" where
  "scanner_eof s =
     (case scan_err s of
        Some e \<Rightarrow> Some e
      | None \<Rightarrow>
          if scan_endTop s then None
          else (let s1 = snd (scanner_step s (CHR '' '')) in
                if scan_endTop s1 then None
                else (case scan_err s1 of
                        None \<Rightarrow> Some ''unexpected end of JSON input''
                      | Some e \<Rightarrow> Some e)))"

text \<open>
  \<^verbatim>\<open>appendCompact(dst, src, true)\<close>, byte by byte: \<open>held\<close> counts the bytes, this one
  included, that an escape already written stands for.  The result is the error of the
  scanner, or the bytes appended.
\<close>

definition html_escape :: "char \<Rightarrow> bytes \<Rightarrow> (bytes \<times> nat) option" where
  "html_escape c rest =
     (if c = CHR ''<'' \<or> c = CHR ''>'' \<or> c = CHR ''&''
      then Some ([CHR 0x5C, CHR ''u'', CHR ''0'', CHR ''0'',
                  lowerhex ((of_char c :: nat) div 16), lowerhex (of_char c)], 1)
      else if c = CHR 0xE2 \<and> (take 2 rest = [CHR 0x80, CHR 0xA8] \<or> take 2 rest = [CHR 0x80, CHR 0xA9])
      then Some ([CHR 0x5C, CHR ''u'', CHR ''2'', CHR ''0'', CHR ''2'',
                  lowerhex (of_char (rest ! 1))], 3)
      else None)"

fun compact_loop :: "scanner \<Rightarrow> nat \<Rightarrow> bytes \<Rightarrow> string + bytes" where
  "compact_loop s held [] =
     (case scanner_eof s of Some e \<Rightarrow> Inl e | None \<Rightarrow> Inr [])"
| "compact_loop s held (c # cs) =
     (let esc = html_escape c cs;
          held1 = (case esc of Some (e, n) \<Rightarrow> n | None \<Rightarrow> held);
          (v, s1) = scanner_step s c
      in if v = scanError
         then (case scanner_eof s1 of Some e \<Rightarrow> Inl e | None \<Rightarrow> Inr [])
         else (let out = (case esc of
                            Some (e, n) \<Rightarrow> e
                          | None \<Rightarrow> if held1 = 0 \<and> v \<noteq> scanSkipSpace \<and> v \<noteq> scanEnd then [c] else [])
               in case compact_loop s1 (held1 - 1) cs of
                    Inl e \<Rightarrow> Inl e
                  | Inr rest \<Rightarrow> Inr (out @ rest)))"

definition appendCompact :: "bytes \<Rightarrow> string + bytes" where
  "appendCompact src = compact_loop newScanner 0 src"

text \<open>
  \<^verbatim>\<open>r.Payload\<close> as a Go slice (\<open>None\<close> is nil), \<^verbatim>\<open>RawMessage.MarshalJSON\<close>, and the
  encoder of a value that has a \<^verbatim>\<open>MarshalJSON\<close> method: the compacted bytes, or the
  scanner's error wrapped in a \<^verbatim>\<open>MarshalerError\<close>.
\<close>

definition payload_slice :: "Record \<Rightarrow> bytes option" where
  "payload_slice r = (if Payload r = [] \<and> Payload_is_nil r then None else Some (Payload r))"

definition RawMessage_MarshalJSON :: "bytes option \<Rightarrow> bytes" where
  "RawMessage_MarshalJSON m = (case m of None \<Rightarrow> ''null'' | Some b \<Rightarrow> b)"

definition marshalerEncoder :: "bytes option \<Rightarrow> string + bytes" where
  "marshalerEncoder m =
     (case appendCompact (RawMessage_MarshalJSON m) of
        Inl e \<Rightarrow> Inl (''json: error calling MarshalJSON for type json.RawMessage: '' @ e)
      | Inr out \<Rightarrow> Inr out)"

text \<open>
  \<^verbatim>\<open>json.Marshal\<close> of a slice that is not nil: an opening bracket, the elements in order
  with a comma before every element but the first, a closing bracket.  The first element
  whose encoder fails ends the call with its error.
\<close>

fun marshal_elems :: "('a \<Rightarrow> string + bytes) \<Rightarrow> bytes \<Rightarrow> nat \<Rightarrow> 'a list \<Rightarrow> string + bytes" where
  "marshal_elems enc buf i [] = Inr buf"
| "marshal_elems enc buf i (p # ps) =
     (let buf1 = (if 0 < i then buf @ '','' else buf) in
      case enc p of
        Inl e \<Rightarrow> Inl e
      | Inr x \<Rightarrow> marshal_elems enc (buf1 @ x) (Suc i) ps)"

definition json_Marshal :: "('a \<Rightarrow> string + bytes) \<Rightarrow> 'a list \<Rightarrow> string + bytes" where
  "json_Marshal enc ps =
     (case marshal_elems enc ''['' 0 ps of
        Inl e \<Rightarrow> Inl e
      | Inr buf \<Rightarrow> Inr (buf @ '']''))"

subsection \<open>The body (sendBatch, lines 152-171)\<close>

text \<open>The \<^verbatim>\<open>switch cfg.BatchFormat\<close>: the body, or the error of the \<^verbatim>\<open>default\<close> branch.\<close>

definition format_batch :: "libs \<Rightarrow> Config \<Rightarrow> Batch \<Rightarrow> string + bytes" where
  "format_batch L cfg b =
     (if BatchFormat cfg = ''ndjson'' then Inr (ndjson_body (Records b))
      else (let payloads = map payload_slice (Records b) in
            case json_Marshal marshalerEncoder payloads of
              Inl e \<Rightarrow> Inl (''failed to marshal batch: '' @ e)
            | Inr body \<Rightarrow> Inr body))"

subsection \<open>Header names (http.Header.Set)\<close>

text \<open>
  \<^verbatim>\<open>req.Header.Set(k, v)\<close> stores the single value \<open>v\<close> under
  \<^verbatim>\<open>textproto.CanonicalMIMEHeaderKey(k)\<close>: when every byte of the key is a token byte of
  RFC 7230, the first letter and every letter after a hyphen are made upper case and
  all other letters lower case; a key with any other byte is left as it is.
\<close>

definition is_token_byte :: "char \<Rightarrow> bool" where
  "is_token_byte c =
     (let n = (of_char c :: nat) in
      (48 \<le> n \<and> n \<le> 57) \<or> (65 \<le> n \<and> n \<le> 90) \<or> (97 \<le> n \<and> n \<le> 122) \<or>
      n \<in> set [33, 35, 36, 37, 38, 39, 42, 43, 45, 46, 94, 95, 96, 124, 126])"

definition is_lower :: "char \<Rightarrow> bool" where
  "is_lower c = (97 \<le> (of_char c :: nat) \<and> (of_char c :: nat) \<le> 122)"

definition is_upper :: "char \<Rightarrow> bool" where
  "is_upper c = (65 \<le> (of_char c :: nat) \<and> (of_char c :: nat) \<le> 90)"

definition to_upper :: "char \<Rightarrow> char" where
  "to_upper c = char_of ((of_char c :: nat) - 32)"

definition to_lower :: "char \<Rightarrow> char" where
  "to_lower c = char_of ((of_char c :: nat) + 32)"

fun canon_bytes :: "bool \<Rightarrow> string \<Rightarrow> string" where
  "canon_bytes upper [] = []"
| "canon_bytes upper (c # cs) =
     (let c' = (if upper \<and> is_lower c then to_upper c
                else if \<not> upper \<and> is_upper c then to_lower c
                else c)
      in c' # canon_bytes (c' = CHR ''-'') cs)"

definition CanonicalMIMEHeaderKey :: "string \<Rightarrow> string" where
  "CanonicalMIMEHeaderKey s = (if list_all is_token_byte s then canon_bytes True s else s)"

definition Header_Set :: "string \<Rightarrow> string \<Rightarrow> (string \<rightharpoonup> string list) \<Rightarrow> (string \<rightharpoonup> string list)" where
  "Header_Set k v h = h(CanonicalMIMEHeaderKey k \<mapsto> [v])"

text \<open>
  Lines 178-182: the default content type first, then every configured header, in the
  order of the loop.
\<close>

definition set_headers :: "Config \<Rightarrow> (string \<rightharpoonup> string list) \<Rightarrow> (string \<rightharpoonup> string list)" where
  "set_headers cfg h =
     fold (\<lambda>(k, v). Header_Set k v) (Headers cfg)
       (Header_Set ''Content-Type'' ''application/json'' h)"

subsection \<open>Decimal formatting (the verb %d of fmt)\<close>

definition digit_char :: "nat \<Rightarrow> char" where
  "digit_char d = char_of (48 + d)"

function format_nat :: "nat \<Rightarrow> string" where
  "format_nat n = (if n < 10 then [digit_char n] else format_nat (n div 10) @ [digit_char (n mod 10)])"
  by pat_completeness auto
termination
  by (relation "measure (\<lambda>n. n)") auto

declare format_nat.simps [simp del]

definition format_int :: "int \<Rightarrow> string" where
  "format_int i = (if i < 0 then CHR ''-'' # format_nat (nat (- i)) else format_nat (nat i))"

subsection \<open>sendBatch (lines 142-196)\<close>

definition MethodPost :: string where
  "MethodPost = ''POST''"

text \<open>Lines 143-146: the configured method, \<^verbatim>\<open>http.MethodPost\<close> when the field is empty.\<close>

definition request_method :: "Config \<Rightarrow> string" where
  "request_method cfg = (let method = Method cfg in if method = '''' then MethodPost else method)"

text \<open>
  \<^verbatim>\<open>http.NewRequestWithContext(ctx, method, cfg.Endpoint, bytes.NewReader(body))\<close>: the
  error of the library, or a request with that method, URL and body and no header yet.
\<close>

definition NewRequestWithContext :: "libs \<Rightarrow> string \<Rightarrow> string \<Rightarrow> bytes \<Rightarrow> string + Request" where
  "NewRequestWithContext L method url body =
     (case new_request_err L method url of
        Some e \<Rightarrow> Inl e
      | None \<Rightarrow> Inr \<lparr>req_Method = method, req_URL = url, req_Body = body, req_Header = Map.empty\<rparr>)"

text \<open>Lines 190-195: the outcome of a completed exchange; \<open>None\<close> is Go's \<^verbatim>\<open>nil\<close>.\<close>

definition classify_response :: "Response \<Rightarrow> string option" where
  "classify_response resp =
     (if StatusCode resp \<ge> 400
      then (let (respBody, _) = io_ReadAll (Body resp)
            in Some (''HTTP '' @ format_int (StatusCode resp) @ '': '' @ respBody))
      else None)"

text \<open>
  \<open>sendBatch L client t cfg b\<close> returns the request handed to \<^verbatim>\<open>client.Do\<close>, if the call
  reaches it, and the error that the Go function returns (\<open>None\<close> for \<^verbatim>\<open>nil\<close>).
\<close>

definition sendBatch :: "libs \<Rightarrow> http_Client \<Rightarrow> nat \<Rightarrow> Config \<Rightarrow> Batch \<Rightarrow> Request option \<times> string option" where
  "sendBatch L client t cfg b =
     (let method = request_method cfg in
      case format_batch L cfg b of
        Inl e \<Rightarrow> (None, Some e)
      | Inr body \<Rightarrow>
          (case NewRequestWithContext L method (Endpoint cfg) body of
             Inl e \<Rightarrow> (None, Some (''failed to create request: '' @ e))
           | Inr req0 \<Rightarrow>
               (let req = req0\<lparr>req_Header := set_headers cfg (req_Header req0)\<rparr> in
                case client_Do L client t req of
                  Inl e \<Rightarrow> (Some req, Some (''HTTP request failed: '' @ e))
                | Inr resp \<Rightarrow> (Some req, classify_response resp))))"

subsection \<open>The session manager of the SDK\<close>

text \<open>
  Modelled from the spec: the session manager (package \<^verbatim>\<open>session\<close> of planx-sdk-go) is
  not among the sources.  Section 4.1 of the specification: \<^verbatim>\<open>Create\<close> generates an
  identifier and stores the session under it; \<^verbatim>\<open>Get\<close> fails when no session has the
  identifier; \<^verbatim>\<open>Close\<close> removes the session's state and reports an unknown identifier
  as an error.  \<^verbatim>\<open>SetData\<close> writes a data slot of the stored session (the handler holds
  a pointer to it).
\<close>

definition Manager_Create :: "libs \<Rightarrow> Manager \<Rightarrow> string \<Rightarrow> bytes \<Rightarrow> Session \<times> Manager" where
  "Manager_Create L mgr tenant config =
     (let sess = \<lparr>ID = generate_id L mgr, TenantID = tenant, ConfigJSON = config, Data = Map.empty\<rparr>
      in (sess, mgr(ID sess \<mapsto> sess)))"

definition Manager_Get :: "libs \<Rightarrow> Manager \<Rightarrow> string \<Rightarrow> string + Session" where
  "Manager_Get L mgr sid = (case mgr sid of None \<Rightarrow> Inl (err_not_found L sid) | Some s \<Rightarrow> Inr s)"

definition Manager_Close :: "libs \<Rightarrow> Manager \<Rightarrow> string \<Rightarrow> string option \<times> Manager" where
  "Manager_Close L mgr sid =
     (case mgr sid of None \<Rightarrow> (Some (err_not_found L sid), mgr) | Some s \<Rightarrow> (None, mgr(sid := None)))"

definition Session_SetData :: "Manager \<Rightarrow> string \<Rightarrow> string \<Rightarrow> SessionData \<Rightarrow> Manager" where
  "Session_SetData mgr sid k v =
     (case mgr sid of None \<Rightarrow> mgr | Some s \<Rightarrow> mgr(sid \<mapsto> s\<lparr>Data := (Data s)(k \<mapsto> v)\<rparr>))"

definition Session_GetData :: "Session \<Rightarrow> string \<Rightarrow> SessionData option" where
  "Session_GetData s k = Data s k"

subsection \<open>CreateSession (lines 42-76)\<close>

definition Second :: int where
  "Second = 1000000000"

text \<open>Lines 56-61: the default of thirty seconds, replaced only by a duration that parses.\<close>

definition session_timeout :: "libs \<Rightarrow> Config \<Rightarrow> int" where
  "session_timeout L cfg =
     (let timeout = 30 * Second in
      if Timeout cfg \<noteq> ''''
      then (case time_ParseDuration L (Timeout cfg) of Inr d \<Rightarrow> d | Inl e \<Rightarrow> timeout)
      else timeout)"

definition CreateSession :: "libs \<Rightarrow> Manager \<Rightarrow> SessionCreateRequest \<Rightarrow> (string + string) \<times> Manager" where
  "CreateSession L mgr req =
     (case json_Unmarshal L (ConfigJson req) of
        Inl e \<Rightarrow> (Inl (''invalid config: '' @ e), mgr)
      | Inr cfg \<Rightarrow>
          if Endpoint cfg = '''' then (Inl ''endpoint is required'', mgr)
          else (let (sess, mgr1) = Manager_Create L mgr (TenantId req) (ConfigJson req);
                    client = \<lparr>client_Timeout = session_timeout L cfg\<rparr>;
                    mgr2 = Session_SetData mgr1 (ID sess) ''http_client'' (ClientData client);
                    mgr3 = Session_SetData mgr2 (ID sess) ''config'' (ConfigData cfg)
                in (Inr (ID sess), mgr3)))"

subsection \<open>CloseSession (lines 199-206)\<close>

text \<open>
  The error of the manager chooses between two log lines only; the handler returns the
  empty response and \<^verbatim>\<open>nil\<close> on both paths.
\<close>

definition CloseSession :: "libs \<Rightarrow> Manager \<Rightarrow> SessionCloseRequest \<Rightarrow> (string + unit) \<times> Manager" where
  "CloseSession L mgr req =
     (let (err, mgr1) = Manager_Close L mgr (close_SessionId req)
      in (Inr (), mgr1))"

subsection \<open>Write (lines 79-140)\<close>

text \<open>
  What \<^verbatim>\<open>stream.Recv\<close> returns: a message or an error; the end of the list of events is
  \<^verbatim>\<open>io.EOF\<close>.  The handler ends by returning (\<^verbatim>\<open>nil\<close> or an error) or by the panic of a
  failed type assertion.
\<close>

datatype recv = Msg WriteRequest | RecvError string

datatype stream_end = Returned "string option" | Panicked

type_synonym binding = "Session \<times> http_Client \<times> Config"

text \<open>Lines 94-105: the session, its client and its config, resolved when none is bound yet.\<close>

definition bind_session :: "libs \<Rightarrow> Manager \<Rightarrow> binding option \<Rightarrow> WriteRequest \<Rightarrow> stream_end + binding" where
  "bind_session L mgr cur req =
     (case cur of
        Some b \<Rightarrow> Inr b
      | None \<Rightarrow>
          (case Manager_Get L mgr (SessionId req) of
             Inl e \<Rightarrow> Inl (Returned (Some e))
           | Inr s \<Rightarrow>
               (case Session_GetData s ''http_client'' of
                  Some (ClientData client) \<Rightarrow>
                    (case Session_GetData s ''config'' of
                       Some (ConfigData cfg) \<Rightarrow> Inr (s, client, cfg)
                     | _ \<Rightarrow> Inl Panicked)
                | _ \<Rightarrow> Inl Panicked)))"

text \<open>
  \<^verbatim>\<open>stream.Send(ack)\<close> followed by \<^verbatim>\<open>continue\<close>: a failed send ends the stream with its
  error; otherwise the acknowledgment goes out and the loop goes on (\<open>k\<close> is what the
  rest of the loop does).
\<close>

definition send_then :: "libs \<Rightarrow> nat \<Rightarrow> AckResponse \<Rightarrow> stream_end \<times> AckResponse list \<Rightarrow> stream_end \<times> AckResponse list" where
  "send_then L n ack k =
     (case stream_Send L n ack of
        Some sendErr \<Rightarrow> (Returned (Some sendErr), [])
      | None \<Rightarrow> (fst k, ack # snd k))"

text \<open>
  The loop: \<open>cur\<close> is the bound session (\<open>None\<close> while \<^verbatim>\<open>currentSession\<close> is nil), \<open>n\<close> the
  number of messages handled so far.  The result is how the handler ends and the
  acknowledgments sent, in order.
\<close>

fun Write_loop :: "libs \<Rightarrow> Manager \<Rightarrow> binding option \<Rightarrow> nat \<Rightarrow> recv list \<Rightarrow> stream_end \<times> AckResponse list" where
  "Write_loop L mgr cur n [] = (Returned None, [])"
| "Write_loop L mgr cur n (RecvError e # rest) = (Returned (Some e), [])"
| "Write_loop L mgr cur n (Msg req # rest) =
     (case bind_session L mgr cur req of
        Inl stop \<Rightarrow> (stop, [])
      | Inr (s, client, cfg) \<Rightarrow>
          (case batch_UnpackBatch L (PackedBatch req) of
             Inl e \<Rightarrow>
               send_then L n \<lparr>Success = False, Error = ''failed to unpack batch: '' @ e\<rparr>
                 (Write_loop L mgr (Some (s, client, cfg)) (Suc n) rest)
           | Inr b \<Rightarrow>
               (case snd (sendBatch L client n cfg b) of
                  Some e \<Rightarrow>
                    send_then L n \<lparr>Success = False, Error = e\<rparr>
                      (Write_loop L mgr (Some (s, client, cfg)) (Suc n) rest)
                | None \<Rightarrow>
                    send_then L n \<lparr>Success = True, Error = ''''\<rparr>
                      (Write_loop L mgr (Some (s, client, cfg)) (Suc n) rest))))"

definition Write :: "libs \<Rightarrow> Manager \<Rightarrow> recv list \<Rightarrow> stream_end \<times> AckResponse list" where
  "Write L mgr events = Write_loop L mgr None 0 events"

subsection \<open>The bodies the specification describes\<close>

text \<open>
  What the specification says the two formats are, to compare the loops of \<^verbatim>\<open>sendBatch\<close>
  with: every payload followed by one newline byte; and one array literal, the elements
  separated by commas.
\<close>

definition ndjson_of :: "bytes list \<Rightarrow> bytes" where
  "ndjson_of ps = concat (map (\<lambda>p. p @ [newline]) ps)"



subsection \<open>A concrete environment\<close>

text \<open>
  The scenario of the specification: a session for \<^verbatim>\<open>http://x/ingest\<close> with method PUT,
  one header and the format \<^verbatim>\<open>ndjson\<close>, and a batch of two records.  The libraries
  answer as the real ones do on the few inputs used (a config object decodes field by
  field, an absent field to its zero value; \<^verbatim>\<open>{\<close> alone is not JSON; \<^verbatim>\<open>5s\<close> is five
  seconds); the packed form of a batch is opaque here, and the endpoint answers 200.
\<close>

definition demo_config :: Config where
  "demo_config = \<lparr>Endpoint = ''http://x/ingest'', Method = ''PUT'',
     Headers = [(''X-Tenant'', ''t1'')], Timeout = '''', BatchFormat = ''ndjson''\<rparr>"

definition demo_batch :: Batch where
  \<open>demo_batch = \<lparr>Records = [\<lparr>Payload = ''{"a":1}'', Payload_is_nil = False\<rparr>,
                              \<lparr>Payload = ''{"b":2}'', Payload_is_nil = False\<rparr>]\<rparr>\<close>

definition demo_client :: http_Client where
  "demo_client = \<lparr>client_Timeout = 30 * Second\<rparr>"

definition scenario_json :: bytes where
  \<open>scenario_json =
     ''{"endpoint":"http://x/ingest","method":"PUT","headers":{"X-Tenant":"t1"},"batch_format":"ndjson"}''\<close>

definition short_timeout_json :: bytes where
  \<open>short_timeout_json = ''{"endpoint":"http://x/ingest","timeout":"5s"}''\<close>

definition bad_timeout_json :: bytes where
  \<open>bad_timeout_json = ''{"endpoint":"http://x/ingest","timeout":"not-a-duration"}''\<close>

definition endpoint_only :: "string \<Rightarrow> Config" where
  "endpoint_only t = \<lparr>Endpoint = ''http://x/ingest'', Method = '''', Headers = [],
     Timeout = t, BatchFormat = ''''\<rparr>"

definition zero_config :: Config where
  "zero_config = \<lparr>Endpoint = '''', Method = '''', Headers = [], Timeout = '''', BatchFormat = ''''\<rparr>"

definition demo_unmarshal :: "bytes \<Rightarrow> string + Config" where
  "demo_unmarshal bs =
     (if bs = scenario_json then Inr demo_config
      else if bs = ''{}'' then Inr zero_config
      else if bs = short_timeout_json then Inr (endpoint_only ''5s'')
      else if bs = bad_timeout_json then Inr (endpoint_only ''not-a-duration'')
      else Inl ''unexpected end of JSON input'')"

definition demo_libs :: libs where
  "demo_libs = \<lparr>
     json_Unmarshal = demo_unmarshal,
     time_ParseDuration = (\<lambda>s. if s = ''5s'' then Inr (5 * Second)
                               else Inl (''time: invalid duration '' @ s)),
     new_request_err = (\<lambda>method url. None),
     client_Do = (\<lambda>client t req. Inr \<lparr>StatusCode = 200, Body = \<lparr>body_data = [], body_err = None\<rparr>\<rparr>),
     batch_UnpackBatch = (\<lambda>bs. if bs = ''packed'' then Inr demo_batch else Inl ''truncated batch''),
     stream_Send = (\<lambda>n ack. None),
     generate_id = (\<lambda>mgr. ''s-1''),
     err_not_found = (\<lambda>sid. ''session not found: '' @ sid)\<rparr>"

text \<open>The header of the request handed to the client, read at one name.\<close>

definition outbound_header :: "libs \<Rightarrow> http_Client \<Rightarrow> nat \<Rightarrow> Config \<Rightarrow> Batch \<Rightarrow> string \<Rightarrow> string list option" where
  "outbound_header L client t cfg b name =
     (case fst (sendBatch L client t cfg b) of None \<Rightarrow> None | Some req \<Rightarrow> req_Header req name)"

text \<open>
  An endpoint that answers with a given status and body, the read of the body ending
  with a given error; a config that writes one header name in two spellings; a config
  with a method outside POST, PUT and PATCH.
\<close>

definition libs_answering :: "int \<Rightarrow> bytes \<Rightarrow> string option \<Rightarrow> libs" where
  "libs_answering code bs err =
     demo_libs\<lparr>client_Do := (\<lambda>client t req.
        Inr \<lparr>StatusCode = code, Body = \<lparr>body_data = bs, body_err = err\<rparr>\<rparr>)\<rparr>"

definition clashing_config :: Config where
  "clashing_config =
     demo_config\<lparr>Headers := [(''content-type'', ''text/plain''), (''CONTENT-TYPE'', ''text/xml'')]\<rparr>"

definition delete_config :: Config where
  "delete_config = demo_config\<lparr>Method := ''DELETE''\<rparr>"

text \<open>
  The client that a \<^verbatim>\<open>Write\<close> stream binds when its first message names the session
  \<open>sid\<close> (\<open>None\<close> when the stream ends there instead).
\<close>

definition stream_client :: "libs \<Rightarrow> Manager \<Rightarrow> string \<Rightarrow> http_Client option" where
  "stream_client L mgr sid =
     (case bind_session L mgr None \<lparr>SessionId = sid, PackedBatch = []\<rparr> of
        Inl stop \<Rightarrow> None
      | Inr (s, client, cfg) \<Rightarrow> Some client)"

text \<open>
  The session of the scenario, created in an empty manager; and a stream on which no
  acknowledgment can be sent.
\<close>

definition demo_create_request :: SessionCreateRequest where
  "demo_create_request = \<lparr>TenantId = ''t1'', ConfigJson = scenario_json\<rparr>"

definition demo_manager :: Manager where
  "demo_manager = snd (CreateSession demo_libs Map.empty demo_create_request)"

definition libs_send_fails :: libs where
  "libs_send_fails = demo_libs\<lparr>stream_Send := (\<lambda>n ack. Some ''transport is closing'')\<rparr>"







section \<open>The request that sendBatch hands to the client\<close>

lemma foldl_ndjson:
  "foldl (\<lambda>buf r. buf @ Payload r @ [newline]) acc rs = acc @ ndjson_of (map Payload rs)"
  by (induction rs arbitrary: acc) (simp_all add: ndjson_of_def)

lemma ndjson_body_eq: "ndjson_body rs = ndjson_of (map Payload rs)"
  by (simp add: ndjson_body_def foldl_ndjson)

lemma sendBatch_request:
  assumes "fst (sendBatch L client t cfg b) = Some req"
  shows "\<exists>body. format_batch L cfg b = Inr body \<and>
           new_request_err L (request_method cfg) (Endpoint cfg) = None \<and>
           req = \<lparr>req_Method = request_method cfg, req_URL = Endpoint cfg, req_Body = body,
                  req_Header = set_headers cfg Map.empty\<rparr>"
  using assms
  by (auto simp: sendBatch_def NewRequestWithContext_def Let_def
           split: sum.splits option.splits)

lemma sendBatch_sends:
  assumes "format_batch L cfg b = Inr body"
    and "new_request_err L (request_method cfg) (Endpoint cfg) = None"
  shows "sendBatch L client t cfg b =
           (let req = \<lparr>req_Method = request_method cfg, req_URL = Endpoint cfg, req_Body = body,
                  req_Header = set_headers cfg Map.empty\<rparr>
            in (Some req, case client_Do L client t req of
                   Inl e \<Rightarrow> Some (''HTTP request failed: '' @ e)
                 | Inr resp \<Rightarrow> classify_response resp))"
  using assms
  by (auto simp: sendBatch_def NewRequestWithContext_def Let_def
           split: sum.splits option.splits)





lemma fold_Header_Set_other:
  assumes "\<forall>(k, v) \<in> set hs. CanonicalMIMEHeaderKey k \<noteq> name"
  shows "fold (\<lambda>(k, v). Header_Set k v) hs h name = h name"
  using assms by (induction hs arbitrary: h) (auto simp: Header_Set_def)

lemma fold_Header_Set_distinct:
  assumes "distinct (map (\<lambda>kv. CanonicalMIMEHeaderKey (fst kv)) hs)" and "(k, v) \<in> set hs"
  shows "fold (\<lambda>(k, v). Header_Set k v) hs h (CanonicalMIMEHeaderKey k) = Some [v]"
  using assms
proof (induction hs arbitrary: h)
  case Nil
  then show ?case by simp
next
  case (Cons kv hs)
  show ?case
  proof (cases "(k, v) = kv")
    case True
    have "\<forall>(k', v') \<in> set hs. CanonicalMIMEHeaderKey k' \<noteq> CanonicalMIMEHeaderKey k"
      using Cons.prems(1) True by force
    then have "fold (\<lambda>(k, v). Header_Set k v) hs (Header_Set k v h) (CanonicalMIMEHeaderKey k) =
        Header_Set k v h (CanonicalMIMEHeaderKey k)"
      by (rule fold_Header_Set_other)
    also have "\<dots> = Some [v]"
      by (simp add: Header_Set_def)
    finally show ?thesis using True by auto
  next
    case False
    then have "(k, v) \<in> set hs" using Cons.prems(2) by simp
    moreover have "distinct (map (\<lambda>kv. CanonicalMIMEHeaderKey (fst kv)) hs)"
      using Cons.prems(1) by simp
    ultimately show ?thesis using Cons.IH by simp
  qed
qed

lemma canonical_content_type: "CanonicalMIMEHeaderKey ''Content-Type'' = ''Content-Type''"
  by code_simp

lemma canonical_lower_content_type: "CanonicalMIMEHeaderKey ''content-type'' = ''Content-Type''"
  by code_simp

lemma canonical_upper_content_type: "CanonicalMIMEHeaderKey ''CONTENT-TYPE'' = ''Content-Type''"
  by code_simp

lemma canonical_x_tenant: "CanonicalMIMEHeaderKey ''X-Tenant'' = ''X-Tenant''"
  by code_simp

lemma format_int_500: "format_int 500 = ''500''"
  by code_simp

section \<open>The scanner drops white space only\<close>





















section \<open>The scenario's session\<close>

lemma demo_manager_session:
  "demo_manager ''s-1'' =
     Some \<lparr>ID = ''s-1'', TenantID = ''t1'', ConfigJSON = scenario_json,
           Data = [''http_client'' \<mapsto> ClientData demo_client, ''config'' \<mapsto> ConfigData demo_config]\<rparr>"
  by (simp add: demo_manager_def CreateSession_def Manager_Create_def Session_SetData_def
      session_timeout_def demo_libs_def demo_unmarshal_def demo_create_request_def
      demo_config_def demo_client_def Let_def)

lemma demo_manager_unknown: "demo_manager ''unknown'' = None"
  by (simp add: demo_manager_def CreateSession_def Manager_Create_def Session_SetData_def
      demo_libs_def demo_unmarshal_def demo_create_request_def demo_config_def Let_def)

lemma demo_bind:
  "bind_session L demo_manager None \<lparr>SessionId = ''s-1'', PackedBatch = pb\<rparr> =
     Inr (\<lparr>ID = ''s-1'', TenantID = ''t1'', ConfigJSON = scenario_json,
           Data = [''http_client'' \<mapsto> ClientData demo_client, ''config'' \<mapsto> ConfigData demo_config]\<rparr>,
          demo_client, demo_config)"
  by (simp add: bind_session_def Manager_Get_def Session_GetData_def demo_manager_session)

lemma demo_sendBatch_ok: "snd (sendBatch demo_libs demo_client n demo_config demo_batch) = None"
  by (simp add: sendBatch_def format_batch_def NewRequestWithContext_def classify_response_def
      demo_libs_def demo_config_def Let_def)

section \<open>The claims\<close>

text \<open>
  C1.  With \<^verbatim>\<open>batch_format = "ndjson"\<close> the body is, for every batch, the payloads in input
  order, each followed by exactly one newline byte and nothing else: this is the body
  \<^verbatim>\<open>sendBatch\<close> computes, the body of every request it hands to the client, and such
  a request goes out whenever the library accepts the method and the URL.
\<close>

theorem C1_ndjson_body:
  assumes "BatchFormat cfg = ''ndjson''"
  shows "format_batch L cfg b = Inr (ndjson_of (map Payload (Records b))) \<and>
         (\<forall>req. fst (sendBatch L client t cfg b) = Some req \<longrightarrow>
                req_Body req = ndjson_of (map Payload (Records b))) \<and>
         (new_request_err L (request_method cfg) (Endpoint cfg) = None \<longrightarrow>
            map_option req_Body (fst (sendBatch L client t cfg b)) =
              Some (ndjson_of (map Payload (Records b))))"
proof -
  have fb: "format_batch L cfg b = Inr (ndjson_of (map Payload (Records b)))"
    using assms by (simp add: format_batch_def ndjson_body_eq)
  moreover have "req_Body req = ndjson_of (map Payload (Records b))"
    if "fst (sendBatch L client t cfg b) = Some req" for req
    using sendBatch_request [OF that] fb by auto
  moreover have "map_option req_Body (fst (sendBatch L client t cfg b)) =
              Some (ndjson_of (map Payload (Records b)))"
    if "new_request_err L (request_method cfg) (Endpoint cfg) = None"
    using sendBatch_sends [OF fb that] by (simp add: Let_def)
  ultimately show ?thesis by blast
qed

theorem C1_ndjson_body_witness:
  \<open>BatchFormat demo_config = ''ndjson'' \<and>
   format_batch demo_libs demo_config demo_batch =
     Inr (''{"a":1}'' @ [newline] @ ''{"b":2}'' @ [newline]) \<and>
   map_option req_Body (fst (sendBatch demo_libs demo_client 0 demo_config demo_batch)) =
     Some (''{"a":1}'' @ [newline] @ ''{"b":2}'' @ [newline])\<close>
  using C1_ndjson_body [where cfg = demo_config and L = demo_libs and b = demo_batch
      and client = demo_client and t = 0]
  by (simp add: demo_config_def demo_libs_def demo_batch_def ndjson_of_def)




text \<open>
  C3.  \<^verbatim>\<open>CreateSession\<close> returns an error and leaves the manager as it was when the config
  bytes do not parse (\<^verbatim>\<open>invalid config: ...\<close>) and when the parsed endpoint is empty
  (\<^verbatim>\<open>endpoint is required\<close>).  When the bytes parse and the endpoint is not empty, it
  returns the identifier of a session that the manager now holds under that identifier,
  with the tenant and the config of the request; no other entry of the manager changes.
\<close>

theorem C3_create_session:
  "(\<forall>e. json_Unmarshal L (ConfigJson req) = Inl e \<longrightarrow>
      CreateSession L mgr req = (Inl (''invalid config: '' @ e), mgr)) \<and>
   (\<forall>cfg. json_Unmarshal L (ConfigJson req) = Inr cfg \<and> Endpoint cfg = '''' \<longrightarrow>
      CreateSession L mgr req = (Inl ''endpoint is required'', mgr)) \<and>
   (\<forall>cfg. json_Unmarshal L (ConfigJson req) = Inr cfg \<and> Endpoint cfg \<noteq> '''' \<longrightarrow>
      fst (CreateSession L mgr req) = Inr (generate_id L mgr) \<and>
      (\<exists>s. snd (CreateSession L mgr req) (generate_id L mgr) = Some s \<and>
           ID s = generate_id L mgr \<and> TenantID s = TenantId req \<and>
           Session_GetData s ''config'' = Some (ConfigData cfg)) \<and>
      (\<forall>sid. sid \<noteq> generate_id L mgr \<longrightarrow> snd (CreateSession L mgr req) sid = mgr sid))"
  by (auto simp: CreateSession_def Manager_Create_def Session_SetData_def Session_GetData_def Let_def)

theorem C3_create_session_witness:
  "CreateSession demo_libs Map.empty \<lparr>TenantId = ''t1'', ConfigJson = ''{''\<rparr> =
     (Inl ''invalid config: unexpected end of JSON input'', Map.empty) \<and>
   CreateSession demo_libs Map.empty \<lparr>TenantId = ''t1'', ConfigJson = ''{}''\<rparr> =
     (Inl ''endpoint is required'', Map.empty) \<and>
   fst (CreateSession demo_libs Map.empty demo_create_request) = Inr ''s-1'' \<and>
   map_option TenantID (snd (CreateSession demo_libs Map.empty demo_create_request) ''s-1'') = Some ''t1''"
proof -
  have u1: "json_Unmarshal demo_libs (ConfigJson \<lparr>TenantId = ''t1'', ConfigJson = ''{''\<rparr>) =
      Inl ''unexpected end of JSON input''"
    and u2: "json_Unmarshal demo_libs (ConfigJson \<lparr>TenantId = ''t1'', ConfigJson = ''{}''\<rparr>) =
      Inr zero_config \<and> Endpoint zero_config = ''''"
    and u3: "json_Unmarshal demo_libs (ConfigJson demo_create_request) = Inr demo_config \<and>
      Endpoint demo_config \<noteq> ''''"
    and g: "generate_id demo_libs Map.empty = ''s-1''"
    by (simp_all add: demo_libs_def demo_unmarshal_def demo_create_request_def demo_config_def
        zero_config_def scenario_json_def short_timeout_json_def bad_timeout_json_def)
  have a: "CreateSession demo_libs Map.empty \<lparr>TenantId = ''t1'', ConfigJson = ''{''\<rparr> =
     (Inl (''invalid config: '' @ ''unexpected end of JSON input''), Map.empty)"
    using C3_create_session [of demo_libs "\<lparr>TenantId = ''t1'', ConfigJson = ''{''\<rparr>" Map.empty] u1
    by blast
  have b: "CreateSession demo_libs Map.empty \<lparr>TenantId = ''t1'', ConfigJson = ''{}''\<rparr> =
     (Inl ''endpoint is required'', Map.empty)"
    using C3_create_session [of demo_libs "\<lparr>TenantId = ''t1'', ConfigJson = ''{}''\<rparr>" Map.empty] u2
    by blast
  have c: "fst (CreateSession demo_libs Map.empty demo_create_request) = Inr ''s-1'' \<and>
      (\<exists>s. snd (CreateSession demo_libs Map.empty demo_create_request) ''s-1'' = Some s \<and>
           TenantID s = ''t1'')"
    using C3_create_session [of demo_libs demo_create_request Map.empty] u3 g
    by (auto simp: demo_create_request_def)
  show ?thesis using a b c by auto
qed

text \<open>
  C4.  \<^verbatim>\<open>CloseSession\<close> with an identifier that the manager does not hold (never
  created, or closed before) returns the empty response and no error: the error of the
  manager is only logged.  The call is total and leaves the manager, so every session,
  unchanged; closing the same identifier a second time therefore changes nothing more.
\<close>

theorem C4_close_unknown:
  "(mgr (close_SessionId req) = None \<longrightarrow> CloseSession L mgr req = (Inr (), mgr)) \<and>
   CloseSession L (snd (CloseSession L mgr req)) req = (Inr (), snd (CloseSession L mgr req))"
  by (auto simp: CloseSession_def Manager_Close_def split: option.splits)

theorem C4_close_unknown_witness:
  "CloseSession demo_libs Map.empty \<lparr>close_SessionId = ''never-created''\<rparr> = (Inr (), Map.empty) \<and>
   fst (CloseSession demo_libs (snd (CloseSession demo_libs demo_manager \<lparr>close_SessionId = ''s-1''\<rparr>))
     \<lparr>close_SessionId = ''s-1''\<rparr>) = Inr ()"
  using C4_close_unknown [of Map.empty "\<lparr>close_SessionId = ''never-created''\<rparr>" demo_libs]
    C4_close_unknown [of demo_manager "\<lparr>close_SessionId = ''s-1''\<rparr>" demo_libs]
  by simp

text \<open>
  The manager reports the unknown identifier, and the handler still answers without an
  error.
\<close>

theorem C4_close_counterexample:
  "fst (Manager_Close demo_libs Map.empty ''never-created'') = Some ''session not found: never-created'' \<and>
   fst (CloseSession demo_libs Map.empty \<lparr>close_SessionId = ''never-created''\<rparr>) = Inr ()"
  by (simp add: CloseSession_def Manager_Close_def demo_libs_def)

text \<open>
  C5.  A message whose packed batch does not decode leads to exactly one
  negative acknowledgment, with the reason \<^verbatim>\<open>failed to unpack batch: ...\<close>; when the stream
  accepts that acknowledgment the handler goes on with the next message, the session
  still bound, and when sending it fails the handler returns the send error and the
  stream ends.  When the session of the very first message cannot be resolved the
  handler returns that error and no acknowledgment is sent.
\<close>

theorem C5_write_stream:
  "(\<forall>bnd e. bind_session L mgr cur req = Inr bnd \<and> batch_UnpackBatch L (PackedBatch req) = Inl e \<longrightarrow>
      (stream_Send L n \<lparr>Success = False, Error = ''failed to unpack batch: '' @ e\<rparr> = None \<longrightarrow>
         Write_loop L mgr cur n (Msg req # rest) =
           (fst (Write_loop L mgr (Some bnd) (Suc n) rest),
            \<lparr>Success = False, Error = ''failed to unpack batch: '' @ e\<rparr> #
              snd (Write_loop L mgr (Some bnd) (Suc n) rest))) \<and>
      (\<forall>sendErr. stream_Send L n \<lparr>Success = False, Error = ''failed to unpack batch: '' @ e\<rparr> = Some sendErr \<longrightarrow>
         Write_loop L mgr cur n (Msg req # rest) = (Returned (Some sendErr), []))) \<and>
   (\<forall>e. Manager_Get L mgr (SessionId req) = Inl e \<longrightarrow>
      Write L mgr (Msg req # rest) = (Returned (Some e), []))"
  by (auto simp: Write_def bind_session_def send_then_def split: prod.splits)

theorem C5_write_stream_witness:
  "Write demo_libs demo_manager
     [Msg \<lparr>SessionId = ''s-1'', PackedBatch = ''garbage''\<rparr>,
      Msg \<lparr>SessionId = ''s-1'', PackedBatch = ''packed''\<rparr>] =
     (Returned None,
      [\<lparr>Success = False, Error = ''failed to unpack batch: truncated batch''\<rparr>,
       \<lparr>Success = True, Error = ''''\<rparr>]) \<and>
   Write libs_send_fails demo_manager
     [Msg \<lparr>SessionId = ''s-1'', PackedBatch = ''garbage''\<rparr>,
      Msg \<lparr>SessionId = ''s-1'', PackedBatch = ''packed''\<rparr>] =
     (Returned (Some ''transport is closing''), []) \<and>
   Write demo_libs demo_manager
     [Msg \<lparr>SessionId = ''unknown'', PackedBatch = ''packed''\<rparr>,
      Msg \<lparr>SessionId = ''s-1'', PackedBatch = ''packed''\<rparr>] =
     (Returned (Some ''session not found: unknown''), [])"
proof -
  let ?s = "\<lparr>ID = ''s-1'', TenantID = ''t1'', ConfigJSON = scenario_json,
           Data = [''http_client'' \<mapsto> ClientData demo_client, ''config'' \<mapsto> ConfigData demo_config]\<rparr>"
  let ?m1 = "\<lparr>SessionId = ''s-1'', PackedBatch = ''garbage''\<rparr>"
  let ?m2 = "\<lparr>SessionId = ''s-1'', PackedBatch = ''packed''\<rparr>"
  let ?m0 = "\<lparr>SessionId = ''unknown'', PackedBatch = ''packed''\<rparr>"
  have u: "batch_UnpackBatch demo_libs (PackedBatch ?m1) = Inl ''truncated batch''"
    "batch_UnpackBatch libs_send_fails (PackedBatch ?m1) = Inl ''truncated batch''"
    "batch_UnpackBatch demo_libs ''packed'' = Inr demo_batch"
    by (simp_all add: demo_libs_def libs_send_fails_def)
  have s: "stream_Send demo_libs k ack = None"
    "stream_Send libs_send_fails k ack = Some ''transport is closing''" for k ack
    by (simp_all add: demo_libs_def libs_send_fails_def)
  have g: "Manager_Get demo_libs demo_manager (SessionId ?m0) = Inl ''session not found: unknown''"
    by (simp add: Manager_Get_def demo_manager_unknown demo_libs_def)
  have rest: "Write_loop demo_libs demo_manager (Some (?s, demo_client, demo_config)) (Suc 0) [Msg ?m2] =
      (Returned None, [\<lparr>Success = True, Error = ''''\<rparr>])"
    by (simp add: bind_session_def u s send_then_def demo_sendBatch_ok)
  have a: "Write demo_libs demo_manager [Msg ?m1, Msg ?m2] =
     (Returned None,
      [\<lparr>Success = False, Error = ''failed to unpack batch: '' @ ''truncated batch''\<rparr>,
       \<lparr>Success = True, Error = ''''\<rparr>])"
    using C5_write_stream [of demo_libs demo_manager None ?m1 0 "[Msg ?m2]"] demo_bind u(1) s(1) rest
    by (simp add: Write_def)
  have b: "Write libs_send_fails demo_manager [Msg ?m1, Msg ?m2] =
     (Returned (Some ''transport is closing''), [])"
    using C5_write_stream [of libs_send_fails demo_manager None ?m1 0 "[Msg ?m2]"] demo_bind u(2) s(2)
    by (simp add: Write_def)
  have c: "Write demo_libs demo_manager [Msg ?m0, Msg ?m2] =
     (Returned (Some ''session not found: unknown''), [])"
    using C5_write_stream [of demo_libs demo_manager None ?m0 0 "[Msg ?m2]"] g by blast
  show ?thesis using a b c by simp
qed

text \<open>
  A stream on which the acknowledgment cannot be sent: the first message does not
  decode, the handler returns the send error, no acknowledgment is out and the second
  message is never handled.
\<close>

theorem C5_send_counterexample:
  "batch_UnpackBatch libs_send_fails ''garbage'' = Inl ''truncated batch'' \<and>
   Write libs_send_fails demo_manager
     [Msg \<lparr>SessionId = ''s-1'', PackedBatch = ''garbage''\<rparr>,
      Msg \<lparr>SessionId = ''s-1'', PackedBatch = ''packed''\<rparr>] =
     (Returned (Some ''transport is closing''), [])"
  by (simp add: Write_def demo_bind send_then_def libs_send_fails_def demo_libs_def)

text \<open>
  C6.  For every completed exchange, \<^verbatim>\<open>sendBatch\<close> returns an error if and only
  if the status is at least 400; the error reads \<^verbatim>\<open>HTTP <status>: <body>\<close> with the
  status in decimal and the bytes that the read of the response body delivered, also
  when that read ended with an error (the bytes read before the failure, which may be
  none).  Every status below 400 gives \<^verbatim>\<open>nil\<close>.
\<close>

theorem C6_status_classification:
  assumes "fst (sendBatch L client t cfg b) = Some req"
    and "client_Do L client t req = Inr resp"
  shows "snd (sendBatch L client t cfg b) =
           (if StatusCode resp \<ge> 400
            then Some (''HTTP '' @ format_int (StatusCode resp) @ '': '' @ body_data (Body resp))
            else None) \<and>
         (snd (sendBatch L client t cfg b) \<noteq> None \<longleftrightarrow> StatusCode resp \<ge> 400)"
proof -
  from sendBatch_request [OF assms(1)] obtain body where
    fb: "format_batch L cfg b = Inr body"
    and nr: "new_request_err L (request_method cfg) (Endpoint cfg) = None"
    and rq: "req = \<lparr>req_Method = request_method cfg, req_URL = Endpoint cfg, req_Body = body,
                  req_Header = set_headers cfg Map.empty\<rparr>"
    by blast
  have "snd (sendBatch L client t cfg b) = classify_response resp"
    using sendBatch_sends [OF fb nr, of client t] assms(2) rq by (simp add: Let_def)
  then show ?thesis
    by (simp add: classify_response_def io_ReadAll_def)
qed

theorem C6_status_classification_witness:
  "snd (sendBatch (libs_answering 500 ''boom'' None) demo_client 0 demo_config demo_batch) =
     Some ''HTTP 500: boom'' \<and>
   snd (sendBatch (libs_answering 399 ''moved'' None) demo_client 0 demo_config demo_batch) = None"
proof -
  have s: "fst (sendBatch (libs_answering c d x) demo_client 0 demo_config demo_batch) =
      Some \<lparr>req_Method = request_method demo_config, req_URL = Endpoint demo_config,
            req_Body = ndjson_of (map Payload (Records demo_batch)),
            req_Header = set_headers demo_config Map.empty\<rparr>" for c d x
    using sendBatch_sends [of "libs_answering c d x" demo_config demo_batch _ demo_client 0]
    by (simp add: format_batch_def ndjson_body_eq demo_libs_def libs_answering_def Let_def demo_config_def)
  have d: "client_Do (libs_answering c d x) demo_client 0 r =
      Inr \<lparr>StatusCode = c, Body = \<lparr>body_data = d, body_err = x\<rparr>\<rparr>" for c d x r
    by (simp add: libs_answering_def)
  have f: "format_int 399 = ''399''" by code_simp
  show ?thesis
    using C6_status_classification [OF s d, of 500 "''boom''" None]
      C6_status_classification [OF s d, of 399 "''moved''" None] format_int_500 f
    by simp
qed

text \<open>
  A response with status 500 whose body delivers three bytes and then fails: the three
  bytes are in the reason.
\<close>

theorem C6_body_counterexample:
  "body_err (Body \<lparr>StatusCode = 500, Body = \<lparr>body_data = ''par'', body_err = Some ''unexpected EOF''\<rparr>\<rparr>) \<noteq> None \<and>
   snd (sendBatch (libs_answering 500 ''par'' (Some ''unexpected EOF'')) demo_client 0 demo_config demo_batch) =
     Some ''HTTP 500: par''"
  using format_int_500
  by (simp add: sendBatch_def format_batch_def NewRequestWithContext_def request_method_def
      classify_response_def io_ReadAll_def libs_answering_def demo_config_def demo_libs_def Let_def)

text \<open>
  C7.  When the config parses and the endpoint is not empty, \<^verbatim>\<open>CreateSession\<close> succeeds
  whatever the timeout field holds, and a \<^verbatim>\<open>Write\<close> stream of the new session binds a
  client whose timeout is thirty seconds when the field is empty (or absent) or does not
  parse as a duration, and the parsed duration when it parses.
\<close>

theorem C7_session_timeout:
  assumes "json_Unmarshal L (ConfigJson req) = Inr cfg" and "Endpoint cfg \<noteq> ''''"
  shows "fst (CreateSession L mgr req) = Inr (generate_id L mgr) \<and>
         (Timeout cfg = '''' \<or> (\<exists>e. time_ParseDuration L (Timeout cfg) = Inl e) \<longrightarrow>
            stream_client L (snd (CreateSession L mgr req)) (generate_id L mgr) =
              Some \<lparr>client_Timeout = 30 * Second\<rparr>) \<and>
         (\<forall>d. Timeout cfg \<noteq> '''' \<and> time_ParseDuration L (Timeout cfg) = Inr d \<longrightarrow>
            stream_client L (snd (CreateSession L mgr req)) (generate_id L mgr) =
              Some \<lparr>client_Timeout = d\<rparr>)"
  using assms
  by (auto simp: CreateSession_def Manager_Create_def Session_SetData_def Session_GetData_def
        stream_client_def bind_session_def Manager_Get_def session_timeout_def Let_def)

theorem C7_session_timeout_witness:
  "fst (CreateSession demo_libs Map.empty \<lparr>TenantId = ''t1'', ConfigJson = bad_timeout_json\<rparr>) =
     Inr ''s-1'' \<and>
   stream_client demo_libs
     (snd (CreateSession demo_libs Map.empty \<lparr>TenantId = ''t1'', ConfigJson = bad_timeout_json\<rparr>))
     ''s-1'' = Some \<lparr>client_Timeout = 30000000000\<rparr> \<and>
   stream_client demo_libs (snd (CreateSession demo_libs Map.empty demo_create_request)) ''s-1'' =
     Some \<lparr>client_Timeout = 30000000000\<rparr> \<and>
   stream_client demo_libs
     (snd (CreateSession demo_libs Map.empty \<lparr>TenantId = ''t1'', ConfigJson = short_timeout_json\<rparr>))
     ''s-1'' = Some \<lparr>client_Timeout = 5000000000\<rparr>"
proof -
  have u1: "json_Unmarshal demo_libs (ConfigJson \<lparr>TenantId = ''t1'', ConfigJson = bad_timeout_json\<rparr>) =
      Inr (endpoint_only ''not-a-duration'')"
    and u2: "json_Unmarshal demo_libs (ConfigJson demo_create_request) = Inr demo_config"
    and u3: "json_Unmarshal demo_libs (ConfigJson \<lparr>TenantId = ''t1'', ConfigJson = short_timeout_json\<rparr>) =
      Inr (endpoint_only ''5s'')"
    by (simp_all add: demo_libs_def demo_unmarshal_def demo_create_request_def
        scenario_json_def short_timeout_json_def bad_timeout_json_def)
  have e: "Endpoint (endpoint_only x) \<noteq> ''''" "Endpoint demo_config \<noteq> ''''"
    and g: "generate_id demo_libs Map.empty = ''s-1''"
    and p: "time_ParseDuration demo_libs ''not-a-duration'' = Inl ''time: invalid duration not-a-duration''"
      "time_ParseDuration demo_libs ''5s'' = Inr 5000000000"
    and t: "Timeout demo_config = ''''" "Timeout (endpoint_only x) = x"
    for x
    by (simp_all add: demo_libs_def demo_config_def endpoint_only_def Second_def)
  show ?thesis
    using C7_session_timeout [OF u1 e(1), of Map.empty] C7_session_timeout [OF u2 e(2), of Map.empty]
      C7_session_timeout [OF u3 e(1), of Map.empty] g p t
    by (simp add: Second_def)
qed

text \<open>
  C8.  \<^verbatim>\<open>Header.Set\<close> stores a value under the canonical form of the key.  The
  request carries \<^verbatim>\<open>Content-Type: application/json\<close> unless a configured key has the
  canonical form \<^verbatim>\<open>Content-Type\<close> (so also \<^verbatim>\<open>content-type\<close>); and when no two configured
  keys share a canonical form, the request carries for every configured key exactly the
  configured value, under the canonical form of the key.
\<close>

theorem C8_request_headers:
  assumes "fst (sendBatch L client t cfg b) = Some req"
  shows "((\<forall>(k, v) \<in> set (Headers cfg). CanonicalMIMEHeaderKey k \<noteq> ''Content-Type'') \<longrightarrow>
            req_Header req ''Content-Type'' = Some [''application/json'']) \<and>
         (distinct (map (\<lambda>kv. CanonicalMIMEHeaderKey (fst kv)) (Headers cfg)) \<longrightarrow>
            (\<forall>(k, v) \<in> set (Headers cfg). req_Header req (CanonicalMIMEHeaderKey k) = Some [v]))"
proof -
  from sendBatch_request [OF assms] have hd: "req_Header req = set_headers cfg Map.empty"
    by auto
  have "req_Header req ''Content-Type'' = Some [''application/json'']"
    if "\<forall>(k, v) \<in> set (Headers cfg). CanonicalMIMEHeaderKey k \<noteq> ''Content-Type''"
    using fold_Header_Set_other [OF that] hd
    by (simp add: set_headers_def Header_Set_def canonical_content_type)
  moreover have "req_Header req (CanonicalMIMEHeaderKey k) = Some [v]"
    if "distinct (map (\<lambda>kv. CanonicalMIMEHeaderKey (fst kv)) (Headers cfg))" and "(k, v) \<in> set (Headers cfg)" for k v
    using fold_Header_Set_distinct [OF that] hd by (simp add: set_headers_def)
  ultimately show ?thesis by blast
qed

theorem C8_request_headers_witness:
  "outbound_header demo_libs demo_client 0 demo_config demo_batch ''Content-Type'' =
     Some [''application/json''] \<and>
   outbound_header demo_libs demo_client 0 demo_config demo_batch ''X-Tenant'' = Some [''t1'']"
proof -
  have s: "fst (sendBatch demo_libs demo_client 0 demo_config demo_batch) =
      Some \<lparr>req_Method = request_method demo_config, req_URL = Endpoint demo_config,
            req_Body = ndjson_of (map Payload (Records demo_batch)),
            req_Header = set_headers demo_config Map.empty\<rparr>"
    using sendBatch_sends [of demo_libs demo_config demo_batch _ demo_client 0]
    by (simp add: format_batch_def ndjson_body_eq demo_libs_def Let_def demo_config_def)
  note k = canonical_x_tenant
  have h: "Headers demo_config = [(''X-Tenant'', ''t1'')]" by (simp add: demo_config_def)
  show ?thesis
    using C8_request_headers [OF s] k h by (simp add: outbound_header_def s)
qed

text \<open>
  Two configured keys that differ in case only, neither of them spelled \<^verbatim>\<open>Content-Type\<close>:
  the request has one \<^verbatim>\<open>Content-Type\<close> header, with the value applied last, so the
  default is gone and the value configured for \<^verbatim>\<open>content-type\<close> is not the one carried.
\<close>

theorem C8_header_counterexample:
  "(''content-type'', ''text/plain'') \<in> set (Headers clashing_config) \<and>
   ''Content-Type'' \<notin> fst ` set (Headers clashing_config) \<and>
   outbound_header demo_libs demo_client 0 clashing_config demo_batch ''Content-Type'' =
     Some [''text/xml''] \<and>
   outbound_header demo_libs demo_client 0 clashing_config demo_batch
     (CanonicalMIMEHeaderKey ''content-type'') = Some [''text/xml''] \<and>
   outbound_header demo_libs demo_client 0 clashing_config demo_batch ''content-type'' = None"
  by (simp add: outbound_header_def sendBatch_def format_batch_def NewRequestWithContext_def
      request_method_def set_headers_def Header_Set_def clashing_config_def demo_config_def
      demo_libs_def canonical_content_type canonical_lower_content_type
      canonical_upper_content_type Let_def)

text \<open>
  C9.  The method of every outbound request is the method field of the config
  as it is written, and POST when the field is empty; nothing restricts the field to
  POST, PUT and PATCH, so the method is one of the three exactly when the field is one
  of them or empty.
\<close>

theorem C9_request_method:
  assumes "fst (sendBatch L client t cfg b) = Some req"
  shows "req_Method req = (if Method cfg = '''' then ''POST'' else Method cfg) \<and>
         (req_Method req \<in> {''POST'', ''PUT'', ''PATCH''} \<longleftrightarrow>
            Method cfg \<in> {'''', ''POST'', ''PUT'', ''PATCH''})"
  using sendBatch_request [OF assms] by (auto simp: request_method_def MethodPost_def Let_def)

theorem C9_request_method_witness:
  "map_option req_Method (fst (sendBatch demo_libs demo_client 0 demo_config demo_batch)) = Some ''PUT'' \<and>
   map_option req_Method
     (fst (sendBatch demo_libs demo_client 0 (demo_config\<lparr>Method := ''''\<rparr>) demo_batch)) = Some ''POST''"
proof -
  have s: "fst (sendBatch demo_libs demo_client 0 cfg demo_batch) =
      Some \<lparr>req_Method = request_method cfg, req_URL = Endpoint cfg,
            req_Body = ndjson_of (map Payload (Records demo_batch)),
            req_Header = set_headers cfg Map.empty\<rparr>" if "BatchFormat cfg = ''ndjson''" for cfg
    using sendBatch_sends [of demo_libs cfg demo_batch _ demo_client 0] that
    by (simp add: format_batch_def ndjson_body_eq demo_libs_def Let_def)
  show ?thesis
    using C9_request_method [OF s, of demo_config] C9_request_method [OF s, of "demo_config\<lparr>Method := ''''\<rparr>"]
    by (simp add: demo_config_def s)
qed

text \<open>A config with the method DELETE: the request goes out with DELETE.\<close>

theorem C9_method_counterexample:
  "map_option req_Method (fst (sendBatch demo_libs demo_client 0 delete_config demo_batch)) =
     Some ''DELETE'' \<and>
   ''DELETE'' \<notin> {''POST'', ''PUT'', ''PATCH''}"
  by (simp add: sendBatch_def format_batch_def NewRequestWithContext_def request_method_def
      delete_config_def demo_config_def demo_libs_def Let_def)

text \<open>
  C10.  A batch of no records is formatted and sent like any other: the body is empty
  for \<^verbatim>\<open>ndjson\<close> and the two bytes \<^verbatim>\<open>[]\<close> for every other format; the request is handed
  to the client whenever the library accepts the method and the URL, so whenever any
  batch at all leads to a request under the same config; and the outcome is that of the
  transport error or of the response's status.
\<close>

theorem C10_empty_batch:
  assumes "Records b = []"
  shows "format_batch L cfg b = Inr (if BatchFormat cfg = ''ndjson'' then [] else ''[]'') \<and>
         (new_request_err L (request_method cfg) (Endpoint cfg) = None \<longrightarrow>
            sendBatch L client t cfg b =
              (let req = \<lparr>req_Method = request_method cfg, req_URL = Endpoint cfg,
                          req_Body = (if BatchFormat cfg = ''ndjson'' then [] else ''[]''),
                          req_Header = set_headers cfg Map.empty\<rparr>
               in (Some req, case client_Do L client t req of
                      Inl e \<Rightarrow> Some (''HTTP request failed: '' @ e)
                    | Inr resp \<Rightarrow> classify_response resp))) \<and>
         (\<forall>b'. fst (sendBatch L client t cfg b') \<noteq> None \<longrightarrow> fst (sendBatch L client t cfg b) \<noteq> None)"
proof -
  have fb: "format_batch L cfg b = Inr (if BatchFormat cfg = ''ndjson'' then [] else ''[]'')"
    using assms by (simp add: format_batch_def ndjson_body_def json_Marshal_def)
  have sent: "sendBatch L client t cfg b =
              (let req = \<lparr>req_Method = request_method cfg, req_URL = Endpoint cfg,
                          req_Body = (if BatchFormat cfg = ''ndjson'' then [] else ''[]''),
                          req_Header = set_headers cfg Map.empty\<rparr>
               in (Some req, case client_Do L client t req of
                      Inl e \<Rightarrow> Some (''HTTP request failed: '' @ e)
                    | Inr resp \<Rightarrow> classify_response resp))"
    if "new_request_err L (request_method cfg) (Endpoint cfg) = None"
    by (rule sendBatch_sends [OF fb that])
  have still: "fst (sendBatch L client t cfg b) \<noteq> None"
    if "fst (sendBatch L client t cfg b') \<noteq> None" for b'
  proof -
    from that obtain req where "fst (sendBatch L client t cfg b') = Some req" by auto
    from sendBatch_request [OF this]
    have "new_request_err L (request_method cfg) (Endpoint cfg) = None" by auto
    from sent [OF this] show ?thesis by (simp add: Let_def)
  qed
  show ?thesis using fb sent still by blast
qed

theorem C10_empty_batch_witness:
  "Records \<lparr>Records = []\<rparr> = [] \<and>
   map_option req_Body (fst (sendBatch demo_libs demo_client 0 demo_config \<lparr>Records = []\<rparr>)) = Some [] \<and>
   map_option req_Body
     (fst (sendBatch demo_libs demo_client 0 (demo_config\<lparr>BatchFormat := ''json_array''\<rparr>) \<lparr>Records = []\<rparr>)) =
     Some ''[]'' \<and>
   snd (sendBatch demo_libs demo_client 0 demo_config \<lparr>Records = []\<rparr>) = None \<and>
   snd (sendBatch (libs_answering 500 ''down'' None) demo_client 0 demo_config \<lparr>Records = []\<rparr>) =
     Some ''HTTP 500: down''"
proof -
  have e: "Records \<lparr>Records = []\<rparr> = []" by simp
  have n: "new_request_err demo_libs m u = None" "new_request_err (libs_answering c d x) m u = None" for m u c d x
    by (simp_all add: demo_libs_def libs_answering_def)
  show ?thesis
    using C10_empty_batch [OF e, of demo_libs demo_config demo_client 0]
      C10_empty_batch [OF e, of demo_libs "demo_config\<lparr>BatchFormat := ''json_array''\<rparr>" demo_client 0]
      C10_empty_batch [OF e, of "libs_answering 500 ''down'' None" demo_config demo_client 0]
      n format_int_500
    by (simp add: Let_def demo_config_def demo_libs_def libs_answering_def classify_response_def io_ReadAll_def)
qed

end
